theory Spec2Isabelle
  imports Complex_Main
begin

section \<open>JavaScript values\<close>

text \<open>
  The collector handles three kinds of JavaScript values: \<^verbatim>\<open>undefined\<close>, numbers and
  strings. Numbers are modelled as exact rationals: readings such as
  \<^verbatim>\<open>Math.round(use * 1000) / 1000\<close> are short decimals, and the binary rounding of
  IEEE doubles is outside the model.
\<close>

datatype jsval = JUndefined | JNum rat | JStr string

definition digit_char :: "nat \<Rightarrow> char" where
  "digit_char d = ''0123456789'' ! d"

fun nat_str :: "nat \<Rightarrow> string" where
  "nat_str n = (if n < 10 then [digit_char n] else nat_str (n div 10) @ [digit_char (n mod 10)])"

declare nat_str.simps [simp del]

text \<open>
  The digits after the decimal point of \<open>r / q\<close> (with \<open>r < q\<close>), at most \<open>fuel\<close> of
  them: JavaScript prints at most 17 significant digits.
\<close>

fun frac_str :: "nat \<Rightarrow> nat \<Rightarrow> nat \<Rightarrow> string" where
  "frac_str fuel r q =
     (if fuel = 0 \<or> r = 0 then []
      else digit_char (r * 10 div q) # frac_str (fuel - 1) (r * 10 mod q) q)"

declare frac_str.simps [simp del]

text \<open>
  \<^verbatim>\<open>Number.prototype.toString\<close> in plain decimal notation: an optional minus sign, the
  integer part, and the fraction digits when there are any. It agrees with JavaScript on
  integers and on short decimals of ordinary magnitude (no exponent notation).
\<close>

definition number_str :: "rat \<Rightarrow> string" where
  "number_str x =
     (let (p, q) = quotient_of x;
          a = nat \<bar>p\<bar>;
          i = a div nat q;
          r = a mod nat q
      in (if p < 0 then ''-'' else []) @ nat_str i @
         (if r = 0 then [] else ''.'' @ frac_str 17 r (nat q)))"

text \<open>The string a template literal \<^verbatim>\<open>`${v}`\<close> puts in place of a value.\<close>

fun js_toString :: "jsval \<Rightarrow> string" where
  "js_toString JUndefined = ''undefined''"
| "js_toString (JNum n) = number_str n"
| "js_toString (JStr s) = s"

text \<open>\<^verbatim>\<open>Math.round\<close>: to the nearest integer, halves towards plus infinity.\<close>

definition Math_round :: "rat \<Rightarrow> rat" where
  "Math_round x = of_int \<lfloor>x + 1 / 2\<rfloor>"

text \<open>\<^verbatim>\<open>s.replace(/c/g, d)\<close> for a one-character pattern and replacement.\<close>

definition replace_all :: "char \<Rightarrow> char \<Rightarrow> string \<Rightarrow> string" where
  "replace_all c d s = map (\<lambda>x. if x = c then d else x) s"

text \<open>\<^verbatim>\<open>xs.join(sep)\<close> on an array of strings.\<close>

fun join :: "string \<Rightarrow> string list \<Rightarrow> string" where
  "join sep [] = []"
| "join sep [x] = x"
| "join sep (x # y # ys) = x @ sep @ join sep (y # ys)"

section \<open>Tags and the line encoder\<close>

definition prefix :: string where
  "prefix = ''_t_''"

text \<open>A tag object \<^verbatim>\<open>{tag: ..., value: ...}\<close>.\<close>

record Tag =
  tag_field :: jsval
  value_field :: jsval

text \<open>
  The inner function \<^verbatim>\<open>format\<close> of \<^verbatim>\<open>tag\<close>: a string has its dots, then its spaces,
  replaced by dashes; any other input is returned as it is.
\<close>

fun format :: "jsval \<Rightarrow> jsval" where
  "format (JStr input) = JStr (replace_all CHR '' '' CHR ''-'' (replace_all CHR ''.'' CHR ''-'' input))"
| "format input = input"

definition tag :: "jsval \<Rightarrow> jsval \<Rightarrow> Tag" where
  "tag t v = \<lparr>tag_field = format t, value_field = format v\<rparr>"

text \<open>What a string tag name or value looks like in a line.\<close>

abbreviation sanitized :: "string \<Rightarrow> string" where
  "sanitized s \<equiv> js_toString (format (JStr s))"

text \<open>The callback of \<^verbatim>\<open>moreTags.map\<close> in \<^verbatim>\<open>statsdFormat\<close>.\<close>

definition render_tag :: "Tag \<Rightarrow> string" where
  "render_tag elem = prefix @ js_toString (tag_field elem) @ ''.'' @ js_toString (value_field elem)"

datatype error = Error jsval
  \<comment> \<open>\<^verbatim>\<open>new Error(`${JSON.stringify(type)} is not a statsd metric type ...`)\<close>,
      carrying the rejected type\<close>

definition allowedMetrics :: "jsval list" where
  "allowedMetrics = [JStr ''c'', JStr ''s'', JStr ''g'', JStr ''ms'']"

text \<open>
  \<^verbatim>\<open>statsdFormat(metric, value, type, moreTags)\<close> on a host named \<open>hostname\<close>. The
  argument \<open>moreTags\<close> is \<open>None\<close> when the caller passes no array. The function pushes the
  host tag onto the array it was given, so the result holds, next to the returned string,
  the contents of that array after the call.
\<close>

definition statsdFormat ::
  "string \<Rightarrow> string \<Rightarrow> jsval \<Rightarrow> jsval \<Rightarrow> Tag list option \<Rightarrow> error + (string \<times> Tag list)" where
  "statsdFormat hostname metric val type moreTags =
     (if type \<notin> set allowedMetrics then Inl (Error type)
      else
        let moreTags1 = (case moreTags of None \<Rightarrow> [] | Some ts \<Rightarrow> ts);
            moreTags2 = moreTags1 @ [tag (JStr ''hostname'') (JStr hostname)];
            tags = join ''.'' (map render_tag moreTags2)
        in Inr (metric @ ''.'' @ tags @ '':'' @ js_toString val @ ''|'' @ js_toString type,
                moreTags2))"

section \<open>Transport\<close>

text \<open>
  The mutable variables of \<^verbatim>\<open>run\<close> (\<^verbatim>\<open>latency\<close>, \<^verbatim>\<open>disks\<close>, \<^verbatim>\<open>battery\<close>), and
  the datagrams handed to \<^verbatim>\<open>udp.send\<close> so far, oldest first. The object \<^verbatim>\<open>disks\<close> is
  modelled by its own properties, a map from mount names to numbers.
\<close>

record state =
  latency :: rat
  disks :: "string \<rightharpoonup> rat"
  battery :: rat
  sent :: "string list"

definition initial :: state where
  "initial = \<lparr>latency = - 1, disks = Map.empty, battery = - 1, sent = []\<rparr>"

datatype message = Msg string | Msgs "string list"

text \<open>\<^verbatim>\<open>send(message)\<close> with \<^verbatim>\<open>debug = false\<close>: an array is joined with newlines.\<close>

definition send :: "message \<Rightarrow> state \<Rightarrow> state" where
  "send message st =
     (let m = (case message of Msgs xs \<Rightarrow> join [CHR 0x0A] xs | Msg s \<Rightarrow> s)
      in st\<lparr>sent := sent st @ [m]\<rparr>)"

text \<open>The call \<^verbatim>\<open>send(statsdFormat(...))\<close>: an exception of the encoder leaves nothing sent.\<close>

definition send_statsdFormat ::
  "string \<Rightarrow> string \<Rightarrow> jsval \<Rightarrow> jsval \<Rightarrow> Tag list option \<Rightarrow> state \<Rightarrow> error + state" where
  "send_statsdFormat hostname metric val type moreTags st =
     (case statsdFormat hostname metric val type moreTags of
        Inl e \<Rightarrow> Inl e
      | Inr (line, arr) \<Rightarrow> Inr (send (Msg line) st))"

section \<open>Samplers that report deltas\<close>

text \<open>
  The step \<^verbatim>\<open>if (value >= 0) { value = `+${value}`; }\<close> shared by the three samplers:
  a non-negative number becomes a string with a plus sign, a negative one stays a number.
\<close>

definition plus_sign :: "rat \<Rightarrow> jsval" where
  "plus_sign v = (if v \<ge> 0 then JStr (''+'' @ number_str v) else JNum v)"

text \<open>
  \<^verbatim>\<open>getLatency\<close>, with the reading \<open>ms\<close> that \<^verbatim>\<open>si.inetLatency\<close> passes to the
  callback. The test of the sentinel runs before the query, the callback after it.
\<close>

definition getLatency :: "string \<Rightarrow> rat \<Rightarrow> state \<Rightarrow> error + state" where
  "getLatency hostname ms st =
     (case (if latency st = - 1
            then send_statsdFormat hostname ''latency'' (JNum 0) (JStr ''g'') None st
            else Inr st) of
        Inl e \<Rightarrow> Inl e
      | Inr st1 \<Rightarrow>
          (case send_statsdFormat hostname ''latency'' (plus_sign (ms - latency st1))
                  (JStr ''g'') None st1 of
             Inl e \<Rightarrow> Inl e
           | Inr st2 \<Rightarrow> Inr (st2\<lparr>latency := ms\<rparr>)))"

text \<open>An element of the array that \<^verbatim>\<open>si.fsSize\<close> passes to the callback.\<close>

record device =
  use :: rat
  type :: string
  mount :: string
  fs :: string

text \<open>
  The body of \<^verbatim>\<open>mounted.forEach\<close> in \<^verbatim>\<open>getDiskUsage\<close>. A string pattern makes
  \<^verbatim>\<open>replace(':', '')\<close> drop the first colon only, which is \<^const>\<open>remove1\<close>.
\<close>

definition getDiskUsage_device :: "string \<Rightarrow> device \<Rightarrow> state \<Rightarrow> error + state" where
  "getDiskUsage_device hostname dev st =
     (let calc = Math_round (use dev * 1000) / 1000;
          mnt = remove1 CHR '':'' (mount dev);
          val = (case disks st mnt of
                   Some d \<Rightarrow> plus_sign (d - calc)
                 | None \<Rightarrow> JNum calc)
      in case send_statsdFormat hostname ''disk_usage'' val (JStr ''g'')
                (Some [tag (JStr ''type'') (JStr (type dev)),
                       tag (JStr ''mount'') (JStr mnt),
                       tag (JStr ''fs'') (JStr (remove1 CHR '':'' (fs dev)))]) st of
           Inl e \<Rightarrow> Inl e
         | Inr st1 \<Rightarrow> Inr (st1\<lparr>disks := (disks st1)(mnt \<mapsto> calc)\<rparr>))"

fun getDiskUsage :: "string \<Rightarrow> device list \<Rightarrow> state \<Rightarrow> error + state" where
  "getDiskUsage hostname [] st = Inr st"
| "getDiskUsage hostname (dev # mounted) st =
     (case getDiskUsage_device hostname dev st of
        Inl e \<Rightarrow> Inl e
      | Inr st1 \<Rightarrow> getDiskUsage hostname mounted st1)"

text \<open>The object that \<^verbatim>\<open>si.battery\<close> passes to the callback.\<close>

record battery_data =
  hasbattery :: bool
  percent :: rat

definition getBattery :: "string \<Rightarrow> battery_data \<Rightarrow> state \<Rightarrow> error + state" where
  "getBattery hostname data st =
     (if \<not> hasbattery data then Inr st
      else if battery st = - 1 then
        (case send_statsdFormat hostname ''battery'' (JNum (percent data)) (JStr ''g'') None st of
           Inl e \<Rightarrow> Inl e
         | Inr st1 \<Rightarrow> Inr (st1\<lparr>battery := percent data\<rparr>))
      else send_statsdFormat hostname ''battery'' (plus_sign (percent data - battery st))
             (JStr ''g'') None st)"

text \<open>
  One round of the medium tier, with the readings its three queries return, and the
  resync tick \<^verbatim>\<open>sendRaw\<close>: three assignments, then a round of the medium tier.
\<close>

record readings =
  inetLatency :: rat
  fsSize :: "device list"
  battery_reading :: battery_data

definition getMedFreq :: "string \<Rightarrow> readings \<Rightarrow> state \<Rightarrow> error + state" where
  "getMedFreq hostname r st =
     (case getLatency hostname (inetLatency r) st of
        Inl e \<Rightarrow> Inl e
      | Inr st1 \<Rightarrow>
          (case getDiskUsage hostname (fsSize r) st1 of
             Inl e \<Rightarrow> Inl e
           | Inr st2 \<Rightarrow> getBattery hostname (battery_reading r) st2))"

definition sendRaw_clear :: "state \<Rightarrow> state" where
  "sendRaw_clear st = st\<lparr>battery := - 1, latency := - 1, disks := Map.empty\<rparr>"

definition sendRaw :: "string \<Rightarrow> readings \<Rightarrow> state \<Rightarrow> error + state" where
  "sendRaw hostname r st = getMedFreq hostname r (sendRaw_clear st)"

section \<open>Command line\<close>

text \<open>
  The options object given to \<^verbatim>\<open>service.add\<close>; a property that was never assigned is
  \<open>None\<close>. Reading \<^verbatim>\<open>process.argv\<close> past its end gives \<^verbatim>\<open>undefined\<close>.
\<close>

record options =
  args :: "string list"
  username :: "jsval option"
  password :: "jsval option"

datatype action = ServiceAdd options | ServiceRemove | ServiceRun | Usage

definition argv_at :: "string list \<Rightarrow> nat \<Rightarrow> jsval" where
  "argv_at argv i = (if i < length argv then JStr (argv ! i) else JUndefined)"

definition dispatch :: "string list \<Rightarrow> action" where
  "dispatch argv =
     (if argv_at argv 2 = JStr ''--add'' \<and> length argv \<ge> 3 then
        ServiceAdd
          \<lparr>args = [''--run''],
           username = (if length argv > 3 then Some (argv_at argv 3) else None),
           password = (if length argv = 4 then Some (argv_at argv 4) else None)\<rparr>
      else if argv_at argv 2 = JStr ''--remove'' then ServiceRemove
      else if argv_at argv 2 = JStr ''--run'' then ServiceRun
      else Usage)"

section \<open>Properties of the line encoder\<close>

lemma replace_all_id: "c \<notin> set s \<Longrightarrow> replace_all c d s = s"
  by (induction s) (auto simp: replace_all_def)

lemma allowedMetrics_set:
  "set allowedMetrics = {JStr ''c'', JStr ''s'', JStr ''g'', JStr ''ms''}"
  by (simp add: allowedMetrics_def)

text \<open>
  Claim C1. For a type among \<open>c\<close>, \<open>s\<close>, \<open>g\<close> and \<open>ms\<close>, \<^const>\<open>statsdFormat\<close> returns
  the metric name, a dot, the tags in the order of the call, each written as the prefix
  \<open>_t_\<close>, the tag name, a dot and the tag value, then one host tag \<open>_t_hostname.host\<close> in
  the last place, a colon, the value, a bar and the type. The host tag is built by
  \<^const>\<open>tag\<close> like every other tag, and is the host name itself when that has no dot and
  no space. With no tag array the host tag is the only tag.
\<close>

theorem statsdFormat_grammar:
  assumes "ty \<in> {''c'', ''s'', ''g'', ''ms''}"
  shows "statsdFormat host metric v (JStr ty) (Some ts) =
           Inr (metric @ ''.'' @
                join ''.'' (map (\<lambda>t. ''_t_'' @ js_toString (tag_field t) @ ''.'' @ js_toString (value_field t)) ts
                            @ [''_t_hostname.'' @ replace_all CHR '' '' CHR ''-'' (replace_all CHR ''.'' CHR ''-'' host)])
                @ '':'' @ js_toString v @ ''|'' @ ty,
                ts @ [tag (JStr ''hostname'') (JStr host)])
       \<and> statsdFormat host metric v (JStr ty) None =
           Inr (metric @ ''.'' @ ''_t_hostname.'' @ replace_all CHR '' '' CHR ''-'' (replace_all CHR ''.'' CHR ''-'' host)
                @ '':'' @ js_toString v @ ''|'' @ ty,
                [tag (JStr ''hostname'') (JStr host)])
       \<and> (CHR ''.'' \<notin> set host \<longrightarrow> CHR '' '' \<notin> set host \<longrightarrow>
            replace_all CHR '' '' CHR ''-'' (replace_all CHR ''.'' CHR ''-'' host) = host)"
proof -
  from assms have mem: "JStr ty \<in> set allowedMetrics"
    by (auto simp: allowedMetrics_def)
  have host_tag: "render_tag (tag (JStr ''hostname'') (JStr host)) =
      ''_t_hostname.'' @ replace_all CHR '' '' CHR ''-'' (replace_all CHR ''.'' CHR ''-'' host)"
    by (simp add: render_tag_def tag_def prefix_def replace_all_def)
  have each: "map render_tag ts = map (\<lambda>t. ''_t_'' @ js_toString (tag_field t) @ ''.'' @ js_toString (value_field t)) ts"
    by (simp add: render_tag_def prefix_def)
  have some: "statsdFormat host metric v (JStr ty) (Some ts) =
           Inr (metric @ ''.'' @
                join ''.'' (map (\<lambda>t. ''_t_'' @ js_toString (tag_field t) @ ''.'' @ js_toString (value_field t)) ts
                            @ [''_t_hostname.'' @ replace_all CHR '' '' CHR ''-'' (replace_all CHR ''.'' CHR ''-'' host)])
                @ '':'' @ js_toString v @ ''|'' @ ty,
                ts @ [tag (JStr ''hostname'') (JStr host)])"
    using mem by (simp add: statsdFormat_def Let_def host_tag each del: append.simps)
  have none: "statsdFormat host metric v (JStr ty) None =
           Inr (metric @ ''.'' @ ''_t_hostname.'' @ replace_all CHR '' '' CHR ''-'' (replace_all CHR ''.'' CHR ''-'' host)
                @ '':'' @ js_toString v @ ''|'' @ ty,
                [tag (JStr ''hostname'') (JStr host)])"
    using mem by (simp add: statsdFormat_def Let_def host_tag)
  have plain: "CHR ''.'' \<notin> set host \<longrightarrow> CHR '' '' \<notin> set host \<longrightarrow>
            replace_all CHR '' '' CHR ''-'' (replace_all CHR ''.'' CHR ''-'' host) = host"
    by (simp add: replace_all_id)
  from some none plain show ?thesis by blast
qed

theorem statsdFormat_grammar_witness:
  "''c'' \<in> {''c'', ''s'', ''g'', ''ms''} \<and>
   CHR ''.'' \<notin> set ''h1'' \<and> CHR '' '' \<notin> set ''h1'' \<and>
   replace_all CHR '' '' CHR ''-'' (replace_all CHR ''.'' CHR ''-'' ''h1'') = ''h1'' \<and>
   statsdFormat ''h1'' ''cpu_usage'' (JNum 42) (JStr ''c'') (Some [tag (JStr ''cpu'') (JNum 0)]) =
     Inr (''cpu_usage._t_cpu.0._t_hostname.h1:42|c'',
          [tag (JStr ''cpu'') (JNum 0), tag (JStr ''hostname'') (JStr ''h1'')])"
proof -
  have h: "''c'' \<in> {''c'', ''s'', ''g'', ''ms''}" by simp
  have n0: "number_str 0 = ''0''" and n42: "number_str 42 = ''42''"
    by (simp_all add: number_str_def nat_str.simps digit_char_def)
  from statsdFormat_grammar [OF h, of "''h1''" "''cpu_usage''" "JNum 42" "[tag (JStr ''cpu'') (JNum 0)]"]
  show ?thesis
    by (simp add: tag_def replace_all_def n0 n42)
qed

text \<open>
  Claim C2. A type outside \<open>c\<close>, \<open>s\<close>, \<open>g\<close> and \<open>ms\<close> makes \<^const>\<open>statsdFormat\<close> raise
  the error, with no string returned and no tag pushed; a type among them never raises.
\<close>

theorem statsdFormat_type_check:
  "(ty \<notin> {JStr ''c'', JStr ''s'', JStr ''g'', JStr ''ms''} \<longrightarrow>
      statsdFormat host metric v ty moreTags = Inl (Error ty)) \<and>
   (ty \<in> {JStr ''c'', JStr ''s'', JStr ''g'', JStr ''ms''} \<longrightarrow>
      (\<exists>line arr. statsdFormat host metric v ty moreTags = Inr (line, arr)))"
  unfolding allowedMetrics_set [symmetric]
  by (simp add: statsdFormat_def Let_def)

theorem statsdFormat_type_check_witness:
  "JStr ''x'' \<notin> {JStr ''c'', JStr ''s'', JStr ''g'', JStr ''ms''} \<and>
   statsdFormat ''h1'' ''uptime'' (JNum 7) (JStr ''x'') None = Inl (Error (JStr ''x'')) \<and>
   JStr ''ms'' \<in> {JStr ''c'', JStr ''s'', JStr ''g'', JStr ''ms''} \<and>
   \<not> isl (statsdFormat ''h1'' ''uptime'' (JNum 7) (JStr ''ms'') None)"
  using statsdFormat_type_check [of "JStr ''x''" "''h1''" "''uptime''" "JNum 7" None]
        statsdFormat_type_check [of "JStr ''ms''" "''h1''" "''uptime''" "JNum 7" None]
  by auto

lemma join_snoc: "xs \<noteq> [] \<Longrightarrow> join sep (xs @ [x]) = join sep xs @ sep @ x"
  by (induction sep xs rule: join.induct) auto

text \<open>
  Claim C6, as stated, fails when the two calls are given the same array: the first call
  pushes the host tag onto it, so its contents are no longer what the caller passed, and
  the second call returns a line with the host tag twice.
\<close>

theorem statsdFormat_same_array_counterexample:
  "statsdFormat ''h1'' ''cpu_usage'' (JNum 42) (JStr ''c'') (Some [tag (JStr ''cpu'') (JNum 0)]) =
     Inr (''cpu_usage._t_cpu.0._t_hostname.h1:42|c'',
          [tag (JStr ''cpu'') (JNum 0), tag (JStr ''hostname'') (JStr ''h1'')]) \<and>
   statsdFormat ''h1'' ''cpu_usage'' (JNum 42) (JStr ''c'')
       (Some [tag (JStr ''cpu'') (JNum 0), tag (JStr ''hostname'') (JStr ''h1'')]) =
     Inr (''cpu_usage._t_cpu.0._t_hostname.h1._t_hostname.h1:42|c'',
          [tag (JStr ''cpu'') (JNum 0), tag (JStr ''hostname'') (JStr ''h1''),
           tag (JStr ''hostname'') (JStr ''h1'')]) \<and>
   ''cpu_usage._t_cpu.0._t_hostname.h1:42|c'' \<noteq> ''cpu_usage._t_cpu.0._t_hostname.h1._t_hostname.h1:42|c'' \<and>
   [tag (JStr ''cpu'') (JNum 0), tag (JStr ''hostname'') (JStr ''h1'')] \<noteq> [tag (JStr ''cpu'') (JNum 0)]"
  by code_simp

text \<open>
  Claim C6, amended. The encoder has no state of its own: the line it returns is a
  function of the host name, the metric, the value, the type and the contents of the tag
  array at the time of the call. It does change that array, appending the host tag, so a
  second call on the same array finds one more tag and returns a different line, with
  the host tag twice.
\<close>

theorem statsdFormat_pushes_host_tag:
  assumes "ty \<in> set allowedMetrics"
  shows "statsdFormat host metric v ty (Some ts) =
           Inr (metric @ ''.'' @ join ''.'' (map render_tag (ts @ [tag (JStr ''hostname'') (JStr host)]))
                  @ '':'' @ js_toString v @ ''|'' @ js_toString ty,
                ts @ [tag (JStr ''hostname'') (JStr host)])
       \<and> statsdFormat host metric v ty (Some (ts @ [tag (JStr ''hostname'') (JStr host)])) =
           Inr (metric @ ''.'' @ join ''.'' (map render_tag (ts @ [tag (JStr ''hostname'') (JStr host)]))
                  @ ''.'' @ render_tag (tag (JStr ''hostname'') (JStr host))
                  @ '':'' @ js_toString v @ ''|'' @ js_toString ty,
                ts @ [tag (JStr ''hostname'') (JStr host), tag (JStr ''hostname'') (JStr host)])
       \<and> metric @ ''.'' @ join ''.'' (map render_tag (ts @ [tag (JStr ''hostname'') (JStr host)]))
             @ '':'' @ js_toString v @ ''|'' @ js_toString ty
           \<noteq> metric @ ''.'' @ join ''.'' (map render_tag (ts @ [tag (JStr ''hostname'') (JStr host)]))
             @ ''.'' @ render_tag (tag (JStr ''hostname'') (JStr host))
             @ '':'' @ js_toString v @ ''|'' @ js_toString ty"
proof -
  let ?H = "tag (JStr ''hostname'') (JStr host)"
  have first: "statsdFormat host metric v ty (Some ts) =
      Inr (metric @ ''.'' @ join ''.'' (map render_tag (ts @ [?H])) @ '':'' @ js_toString v @ ''|'' @ js_toString ty,
           ts @ [?H])"
    using assms by (simp add: statsdFormat_def Let_def)
  have "join ''.'' (map render_tag ((ts @ [?H]) @ [?H])) =
        join ''.'' (map render_tag (ts @ [?H])) @ ''.'' @ render_tag ?H"
    using join_snoc [of "map render_tag (ts @ [?H])" "''.''" "render_tag ?H"] by simp
  then have second: "statsdFormat host metric v ty (Some (ts @ [?H])) =
      Inr (metric @ ''.'' @ join ''.'' (map render_tag (ts @ [?H])) @ ''.'' @ render_tag ?H
             @ '':'' @ js_toString v @ ''|'' @ js_toString ty,
           ts @ [?H, ?H])"
    using assms by (simp add: statsdFormat_def Let_def)
  have differ: "metric @ ''.'' @ join ''.'' (map render_tag (ts @ [?H])) @ '':'' @ js_toString v @ ''|'' @ js_toString ty
      \<noteq> metric @ ''.'' @ join ''.'' (map render_tag (ts @ [?H])) @ ''.'' @ render_tag ?H
             @ '':'' @ js_toString v @ ''|'' @ js_toString ty"
    by simp
  from first second differ show ?thesis by blast
qed

theorem statsdFormat_pushes_host_tag_witness:
  "JStr ''c'' \<in> set allowedMetrics \<and>
   statsdFormat ''h1'' ''cpu_usage'' (JNum 42) (JStr ''c'')
       (Some [tag (JStr ''cpu'') (JNum 0), tag (JStr ''hostname'') (JStr ''h1'')]) =
     Inr (''cpu_usage._t_cpu.0._t_hostname.h1._t_hostname.h1:42|c'',
          [tag (JStr ''cpu'') (JNum 0), tag (JStr ''hostname'') (JStr ''h1''),
           tag (JStr ''hostname'') (JStr ''h1'')])"
proof -
  have h: "JStr ''c'' \<in> set allowedMetrics" by (simp add: allowedMetrics_def)
  have n0: "number_str 0 = ''0''" and n42: "number_str 42 = ''42''"
    by (simp_all add: number_str_def nat_str.simps digit_char_def)
  from statsdFormat_pushes_host_tag [OF h, of "''h1''" "''cpu_usage''" "JNum 42" "[tag (JStr ''cpu'') (JNum 0)]"]
  show ?thesis
    by (simp add: h tag_def render_tag_def prefix_def replace_all_def n0 n42)
qed

section \<open>Properties of the tag constructor\<close>







section \<open>Properties of the delta samplers\<close>

text \<open>What each sampler sends and stores, as equations.\<close>

lemma number_str_0: "number_str 0 = ''0''"
  by (simp add: number_str_def nat_str.simps digit_char_def)

lemma send_statsdFormat_gauge:
  "send_statsdFormat h metric v (JStr ''g'') moreTags st =
     Inr (st\<lparr>sent := sent st @
        [metric @ ''.'' @
         join ''.'' (map render_tag ((case moreTags of None \<Rightarrow> [] | Some ts \<Rightarrow> ts)
                                      @ [tag (JStr ''hostname'') (JStr h)]))
         @ '':'' @ js_toString v @ ''|g'']\<rparr>)"
  by (simp add: send_statsdFormat_def statsdFormat_def allowedMetrics_def send_def Let_def)

lemma render_host_tag:
  "render_tag (tag (JStr ''hostname'') (JStr h)) = ''_t_hostname.'' @ sanitized h"
  by (simp add: render_tag_def tag_def prefix_def replace_all_def)

lemma getLatency_first:
  "latency st = - 1 \<Longrightarrow>
   getLatency h ms st =
     Inr (st\<lparr>sent := sent st @
             [''latency._t_hostname.'' @ sanitized h @ '':0|g'',
              ''latency._t_hostname.'' @ sanitized h @ '':'' @ js_toString (plus_sign (ms + 1)) @ ''|g''],
            latency := ms\<rparr>)"
  by (simp add: getLatency_def send_statsdFormat_gauge render_host_tag number_str_0)

lemma getLatency_next:
  "latency st \<noteq> - 1 \<Longrightarrow>
   getLatency h ms st =
     Inr (st\<lparr>sent := sent st @
             [''latency._t_hostname.'' @ sanitized h @ '':'' @ js_toString (plus_sign (ms - latency st)) @ ''|g''],
            latency := ms\<rparr>)"
  by (simp add: getLatency_def send_statsdFormat_gauge render_host_tag)

lemma getDiskUsage_device_eq:
  "getDiskUsage_device h dev st =
     Inr (st\<lparr>sent := sent st @
             [''disk_usage._t_type.'' @ sanitized (type dev) @
              ''._t_mount.'' @ sanitized (remove1 CHR '':'' (mount dev)) @
              ''._t_fs.'' @ sanitized (remove1 CHR '':'' (fs dev)) @
              ''._t_hostname.'' @ sanitized h @ '':'' @
              js_toString (case disks st (remove1 CHR '':'' (mount dev)) of
                             Some d \<Rightarrow> plus_sign (d - Math_round (use dev * 1000) / 1000)
                           | None \<Rightarrow> JNum (Math_round (use dev * 1000) / 1000)) @ ''|g''],
            disks := (disks st)(remove1 CHR '':'' (mount dev) \<mapsto> Math_round (use dev * 1000) / 1000)\<rparr>)"
  by (simp add: getDiskUsage_device_def send_statsdFormat_gauge Let_def
      render_tag_def tag_def prefix_def replace_all_def)


lemma getBattery_next:
  "hasbattery data \<Longrightarrow> battery st \<noteq> - 1 \<Longrightarrow>
   getBattery h data st =
     Inr (st\<lparr>sent := sent st @
             [''battery._t_hostname.'' @ sanitized h @ '':'' @
              js_toString (plus_sign (percent data - battery st)) @ ''|g'']\<rparr>)"
  by (simp add: getBattery_def send_statsdFormat_gauge render_host_tag)




text \<open>
  Claim C10. When the provider reports no battery, the battery sampler returns at once:
  nothing is sent and the stored battery value, like every other variable, is as before.
\<close>

theorem battery_absent:
  "\<not> hasbattery data \<Longrightarrow> getBattery h data st = Inr st"
  by (simp add: getBattery_def)

theorem battery_absent_witness:
  "\<not> hasbattery \<lparr>hasbattery = False, percent = 0\<rparr> \<and>
   getBattery ''h1'' \<lparr>hasbattery = False, percent = 0\<rparr>
     \<lparr>latency = 15, disks = Map.empty, battery = 50, sent = [''battery._t_hostname.h1:50|g'']\<rparr> =
   Inr \<lparr>latency = 15, disks = Map.empty, battery = 50, sent = [''battery._t_hostname.h1:50|g'']\<rparr>"
  using battery_absent [of "\<lparr>hasbattery = False, percent = 0\<rparr>" "''h1''"
      "\<lparr>latency = 15, disks = Map.empty, battery = 50, sent = [''battery._t_hostname.h1:50|g'']\<rparr>"]
  by simp

text \<open>
  After a first observation each sampler takes the difference with the stored value:
  the latency and battery samplers subtract the stored value from the reading, the disk
  sampler subtracts the reading from the stored value.
\<close>

lemma getDiskUsage_device_next:
  "disks st (remove1 CHR '':'' (mount dev)) = Some d \<Longrightarrow>
   getDiskUsage_device h dev st =
     Inr (st\<lparr>sent := sent st @
             [''disk_usage._t_type.'' @ sanitized (type dev) @
              ''._t_mount.'' @ sanitized (remove1 CHR '':'' (mount dev)) @
              ''._t_fs.'' @ sanitized (remove1 CHR '':'' (fs dev)) @
              ''._t_hostname.'' @ sanitized h @ '':'' @
              js_toString (plus_sign (d - Math_round (use dev * 1000) / 1000)) @ ''|g''],
            disks := (disks st)(remove1 CHR '':'' (mount dev) \<mapsto> Math_round (use dev * 1000) / 1000)\<rparr>)"
  by (simp add: getDiskUsage_device_eq)

text \<open>
  Claim C3 does not hold for the disk sampler, whose subtraction has its operands the
  other way round. After \<open>10\<close> for the mount \<open>/\<close>, the reading \<open>15\<close> is sent as \<open>-5\<close>,
  where the claim, the latency sampler and the battery sampler give \<open>+5\<close>.
\<close>

theorem disk_delta_reversed:
  "getDiskUsage ''h1'' [\<lparr>use = 10, type = ''ext4'', mount = ''/'', fs = ''/dev/sda1''\<rparr>] initial =
     Inr \<lparr>latency = - 1, disks = [''/'' \<mapsto> 10], battery = - 1,
          sent = [''disk_usage._t_type.ext4._t_mount./._t_fs./dev/sda1._t_hostname.h1:10|g'']\<rparr> \<and>
   map_sum id sent
     (getDiskUsage ''h1'' [\<lparr>use = 15, type = ''ext4'', mount = ''/'', fs = ''/dev/sda1''\<rparr>]
        \<lparr>latency = - 1, disks = [''/'' \<mapsto> 10], battery = - 1,
         sent = [''disk_usage._t_type.ext4._t_mount./._t_fs./dev/sda1._t_hostname.h1:10|g'']\<rparr>) =
     Inr [''disk_usage._t_type.ext4._t_mount./._t_fs./dev/sda1._t_hostname.h1:10|g'',
          ''disk_usage._t_type.ext4._t_mount./._t_fs./dev/sda1._t_hostname.h1:-5|g'']"
proof -
  have mr: "Math_round 10000 = 10000" by code_simp
  have n10: "number_str 10 = ''10''"
    by (simp add: number_str_def nat_str.simps digit_char_def)
  have one: "getDiskUsage ''h1'' [\<lparr>use = 10, type = ''ext4'', mount = ''/'', fs = ''/dev/sda1''\<rparr>] initial =
     Inr \<lparr>latency = - 1, disks = [''/'' \<mapsto> 10], battery = - 1,
          sent = [''disk_usage._t_type.ext4._t_mount./._t_fs./dev/sda1._t_hostname.h1:10|g'']\<rparr>"
    by (simp add: getDiskUsage_device_eq initial_def replace_all_def mr n10)
  have two: "map_sum id sent
     (getDiskUsage ''h1'' [\<lparr>use = 15, type = ''ext4'', mount = ''/'', fs = ''/dev/sda1''\<rparr>]
        \<lparr>latency = - 1, disks = [''/'' \<mapsto> 10], battery = - 1,
         sent = [''disk_usage._t_type.ext4._t_mount./._t_fs./dev/sda1._t_hostname.h1:10|g'']\<rparr>) =
     Inr [''disk_usage._t_type.ext4._t_mount./._t_fs./dev/sda1._t_hostname.h1:10|g'',
          ''disk_usage._t_type.ext4._t_mount./._t_fs./dev/sda1._t_hostname.h1:-5|g'']"
    by code_simp
  from one two show ?thesis by (rule conjI)
qed

text \<open>
  Claim C5 does not hold for the battery sampler: only its first observation assigns the
  variable. With \<open>50\<close> stored, the reading \<open>60\<close> is sent as \<open>+10\<close> and \<open>50\<close> stays
  stored. The latency and disk samplers store every reading.
\<close>

theorem battery_not_updated:
  "getBattery ''h1'' \<lparr>hasbattery = True, percent = 60\<rparr>
     \<lparr>latency = - 1, disks = Map.empty, battery = 50, sent = []\<rparr> =
   Inr \<lparr>latency = - 1, disks = Map.empty, battery = 50, sent = [''battery._t_hostname.h1:+10|g'']\<rparr>"
proof -
  have n10: "number_str 10 = ''10''"
    by (simp add: number_str_def nat_str.simps digit_char_def)
  show ?thesis
    by (simp add: getBattery_next replace_all_def plus_sign_def n10)
qed

lemma getLatency_stores: "\<exists>st'. getLatency h ms st = Inr st' \<and> latency st' = ms"
  by (cases "latency st = - 1") (simp_all add: getLatency_first getLatency_next)

lemma getDiskUsage_device_stores:
  "\<exists>st'. getDiskUsage_device h dev st = Inr st' \<and>
      disks st' (remove1 CHR '':'' (mount dev)) = Some (Math_round (use dev * 1000) / 1000)"
  by (simp add: getDiskUsage_device_eq)

lemma getBattery_keeps_stored:
  "hasbattery data \<Longrightarrow> battery st \<noteq> - 1 \<Longrightarrow>
     \<exists>st'. getBattery h data st = Inr st' \<and> battery st' = battery st"
  by (simp add: getBattery_next)

text \<open>
  Claim C7 does not hold for latency. The resync tick clears the three variables and the
  next round finds no key: the disk and battery samplers send the absolute readings
  \<open>12\<close> and \<open>60\<close>. The latency sampler sends its baseline \<open>0\<close> and then, for the reading
  \<open>20\<close>, the line \<open>+21\<close>: the callback has no branch for a first observation and takes
  the difference with the sentinel \<open>-1\<close>.
\<close>

theorem resync_latency_delta:
  "latency (sendRaw_clear \<lparr>latency = 15, disks = [''/'' \<mapsto> 10], battery = 50, sent = []\<rparr>) = - 1 \<and>
   battery (sendRaw_clear \<lparr>latency = 15, disks = [''/'' \<mapsto> 10], battery = 50, sent = []\<rparr>) = - 1 \<and>
   disks (sendRaw_clear \<lparr>latency = 15, disks = [''/'' \<mapsto> 10], battery = 50, sent = []\<rparr>) = Map.empty \<and>
   map_sum id sent
     (sendRaw ''h1''
        \<lparr>inetLatency = 20,
         fsSize = [\<lparr>use = 12, type = ''ext4'', mount = ''/'', fs = ''/dev/sda1''\<rparr>],
         battery_reading = \<lparr>hasbattery = True, percent = 60\<rparr>\<rparr>
        \<lparr>latency = 15, disks = [''/'' \<mapsto> 10], battery = 50, sent = []\<rparr>) =
     Inr [''latency._t_hostname.h1:0|g'',
          ''latency._t_hostname.h1:+21|g'',
          ''disk_usage._t_type.ext4._t_mount./._t_fs./dev/sda1._t_hostname.h1:12|g'',
          ''battery._t_hostname.h1:60|g'']"
proof -
  have cleared: "sendRaw_clear \<lparr>latency = 15, disks = [''/'' \<mapsto> 10], battery = 50, sent = []\<rparr> =
      \<lparr>latency = - 1, disks = Map.empty, battery = - 1, sent = []\<rparr>"
    by (simp add: sendRaw_clear_def)
  have run: "map_sum id sent
     (getMedFreq ''h1''
        \<lparr>inetLatency = 20,
         fsSize = [\<lparr>use = 12, type = ''ext4'', mount = ''/'', fs = ''/dev/sda1''\<rparr>],
         battery_reading = \<lparr>hasbattery = True, percent = 60\<rparr>\<rparr>
        \<lparr>latency = - 1, disks = Map.empty, battery = - 1, sent = []\<rparr>) =
     Inr [''latency._t_hostname.h1:0|g'',
          ''latency._t_hostname.h1:+21|g'',
          ''disk_usage._t_type.ext4._t_mount./._t_fs./dev/sda1._t_hostname.h1:12|g'',
          ''battery._t_hostname.h1:60|g'']"
    by code_simp
  show ?thesis
    unfolding sendRaw_def cleared using run by simp
qed

section \<open>Properties of the command line\<close>

text \<open>
  Claim C9 does not hold for \<open>--add\<close> with a user name and a password. The password is
  assigned only when \<^verbatim>\<open>process.argv\<close> has exactly four elements, and is then read at
  index 4, past the end: with both arguments the options hold the user name and no
  password, and with the user name alone they hold a password that is \<^verbatim>\<open>undefined\<close>.
\<close>

theorem add_drops_password:
  "dispatch [''node'', ''index.js'', ''--add'', ''alice'', ''secret''] =
     ServiceAdd \<lparr>args = [''--run''], username = Some (JStr ''alice''), password = None\<rparr> \<and>
   dispatch [''node'', ''index.js'', ''--add'', ''alice''] =
     ServiceAdd \<lparr>args = [''--run''], username = Some (JStr ''alice''), password = Some JUndefined\<rparr>"
  by (simp add: dispatch_def argv_at_def)

lemma dispatch_password:
  "dispatch argv = ServiceAdd opts \<Longrightarrow> password opts = None \<or> password opts = Some JUndefined"
  by (auto simp: dispatch_def argv_at_def split: if_splits)

lemma dispatch_other:
  "dispatch [node, script, ''--remove''] = ServiceRemove \<and>
   dispatch [node, script, ''--run''] = ServiceRun \<and>
   dispatch [node, script] = Usage \<and>
   (a \<notin> {''--add'', ''--remove'', ''--run''} \<longrightarrow> dispatch (node # script # a # rest) = Usage)"
  by (simp add: dispatch_def argv_at_def)

end
